theory Spec2Isabelle
  imports Main
begin

section \<open>Python values, exceptions and library functions used by \<open>aws_gate/ssh.py\<close>\<close>

text \<open>
  An exception raised by the source is a value: a computation returns \<open>Inl e\<close> when it
  raises \<open>e\<close> and \<open>Inr v\<close> when it returns \<open>v\<close>.
\<close>

datatype exn =
    ValueError string
  | AttributeError string
  | KeyError string
  | IndexError string
  | OtherError string

text \<open>The values a call of \<open>ssh\<close> or \<open>SshSession.open\<close> can hand back.\<close>

datatype pyval = PyNone | PyInt int | PyStr string

text \<open>A JSON-serialisable Python object; a dict keeps its insertion order.\<close>

datatype json =
    JNull
  | JBool bool
  | JInt int
  | JStr string
  | JList "json list"
  | JDict "(string \<times> json) list"

definition sq :: char where
  "sq = CHR 0x27"

definition dq :: char where
  "dq = CHR 0x22"

definition bslash :: char where
  "bslash = CHR 0x5C"

text \<open>\<open>str(n)\<close> for a Python int: decimal digits, with a minus sign below zero.\<close>

fun str_nat :: "nat \<Rightarrow> string" where
  "str_nat n =
     (if n < 10 then [char_of (48 + n)]
      else str_nat (n div 10) @ [char_of (48 + n mod 10)])"

definition str_int :: "int \<Rightarrow> string" where
  "str_int i = (if i < 0 then CHR ''-'' # str_nat (nat (- i)) else str_nat (nat i))"

text \<open>\<open>"{}".format(x)\<close> for \<open>x\<close> a string or \<open>None\<close>.\<close>

fun format_opt :: "string option \<Rightarrow> string" where
  "format_opt None = ''None''"
| "format_opt (Some s) = s"

text \<open>\<open>sep.join(xs)\<close>.\<close>

fun join :: "string \<Rightarrow> string list \<Rightarrow> string" where
  "join sep [] = []"
| "join sep [x] = x"
| "join sep (x # y # ys) = x @ sep @ join sep (y # ys)"

text \<open>\<open>s.replace(old, new)\<close> for a one-character \<open>old\<close>.\<close>

definition replace_char :: "char \<Rightarrow> string \<Rightarrow> string \<Rightarrow> string" where
  "replace_char old new s = concat (map (\<lambda>c. if c = old then new else [c]) s)"

text \<open>
  \<open>shlex.quote\<close> of the Python standard library:
  \<^verbatim>\<open>
  _find_unsafe = re.compile(r'[^\w@%+=:,./-]', re.ASCII).search
  def quote(s):
      if not s:
          return "''"
      if _find_unsafe(s) is None:
          return s
      return "'" + s.replace("'", "'\"'\"'") + "'"
  \<close>
\<close>

definition safe_char :: "char \<Rightarrow> bool" where
  "safe_char c =
     (c \<in> set (''abcdefghijklmnopqrstuvwxyz'' @ ''ABCDEFGHIJKLMNOPQRSTUVWXYZ''
               @ ''0123456789'' @ ''_@%+=:,./-''))"

definition shlex_quote :: "string \<Rightarrow> string" where
  "shlex_quote s =
     (if s = [] then [sq, sq]
      else if list_all safe_char s then s
      else [sq] @ replace_char sq [sq, dq, sq, dq, sq] s @ [sq])"


section \<open>The world outside \<open>ssh.py\<close>\<close>

text \<open>A boto3 client or resource, as far as the source reads it: \<open>meta.endpoint_url\<close>.\<close>

record aws_client =
  service_name :: string
  endpoint_url :: string

text \<open>
  The attributes \<open>SshSession.__init__\<close> sets (lines 49-65), and \<open>_response\<close>, which
  the inherited \<open>__enter__\<close> sets: an attribute that is not set yet is \<open>None\<close> here.
\<close>

record ssh_session =
  self_instance_id :: string
  self_region_name :: string
  self_profile_name :: string
  self_ssm :: "aws_client option"
  self_port :: int
  self_user :: string
  self_command :: "string list option"
  self_key_path :: string
  self_agent_mode :: bool
  self_ssh_cmd :: "string list option"
  self_session_parameters :: json
  self_response :: "json option"

text \<open>
  The three context managers of \<open>ssh\<close>, with their constructor arguments:
  \<open>SshKey(key_type, key_size, key_path, agent_mode)\<close>,
  \<open>SshKeyUploader(instance_id, az, user, ssh_key, ec2_ic)\<close> and the \<open>SshSession\<close>.
\<close>

datatype ssh_key = SshKey string int string bool

datatype ssh_key_uploader = SshKeyUploader string string string ssh_key aws_client

datatype cm = KeyCM ssh_key | UploaderCM ssh_key_uploader | SessionCM ssh_session

text \<open>What \<open>__exit__\<close> does: it raises, or returns a value whose truth suppresses the
  exception in flight.\<close>

datatype exit_outcome = ExitRaises exn | ExitReturns bool

text \<open>What a run of \<open>ssh\<close> does to the outside, in order.\<close>

datatype event =
    LogInfo string string "string option"
  | Entered cm
  | EnterFailed cm exn
  | Exited cm
  | Executed string "string list"

text \<open>
  The constants of \<open>aws_gate.constants\<close>, \<open>json.dumps\<close>, and the functions and
  classes \<open>ssh.py\<close> imports from modules that are not part of the source under
  study (\<open>aws_gate.utils\<close>, \<open>aws_gate.query\<close>, \<open>aws_gate.ssh_common\<close>,
  \<open>aws_gate.session_common\<close>): each is a parameter, and each call either raises or
  returns. \<open>cm_enter\<close> is the constructor call and \<open>__enter__\<close> of \<open>SshKey\<close> and
  \<open>SshKeyUploader\<close>, \<open>cm_exit\<close> the \<open>__exit__\<close> of all three managers,
  \<open>start_session\<close> the session broker's call. The last four fields are the decorators
  of \<open>aws_gate.decorators\<close> applied to \<open>ssh\<close> at lines 120-123: each either raises
  before the call goes on or lets it go on; \<open>plugin_version\<close> is given the version it
  asks for, \<open>valid_aws_profile\<close> and \<open>valid_aws_region\<close> the \<open>profile_name\<close> and
  the \<open>region_name\<close> of the call.
\<close>

record 'c world =
  DEBUG :: bool
  PLUGIN_INSTALL_PATH :: string
  DEFAULT_GATE_DIR :: string
  json_dumps :: "json \<Rightarrow> string"
  fetch_instance_details_from_config ::
    "'c \<Rightarrow> string \<Rightarrow> string option \<Rightarrow> string \<Rightarrow> exn + (string \<times> string option \<times> string)"
  get_aws_client :: "string \<Rightarrow> string \<Rightarrow> string option \<Rightarrow> exn + aws_client"
  get_aws_resource :: "string \<Rightarrow> string \<Rightarrow> string option \<Rightarrow> exn + aws_client"
  query_instance :: "string \<Rightarrow> aws_client \<Rightarrow> exn + string option"
  get_instance_details :: "string \<Rightarrow> aws_client \<Rightarrow> exn + (string \<times> string) list"
  cm_enter :: "cm \<Rightarrow> exn option"
  start_session :: "aws_client \<Rightarrow> json \<Rightarrow> exn + json"
  cm_exit :: "cm \<Rightarrow> exn option \<Rightarrow> exit_outcome"
  execute :: "string \<Rightarrow> string list \<Rightarrow> exn + pyval"
  plugin_required :: "exn option"
  plugin_version :: "string \<Rightarrow> exn option"
  valid_aws_profile :: "string option \<Rightarrow> exn option"
  valid_aws_region :: "string \<Rightarrow> exn option"

section \<open>\<open>class SshSession\<close>\<close>

text \<open>\<open>SshSession.__init__\<close>, lines 37-65.\<close>

definition SshSession_init ::
  "string \<Rightarrow> string \<Rightarrow> aws_client option \<Rightarrow> string \<Rightarrow> string option \<Rightarrow> int \<Rightarrow> string
     \<Rightarrow> string list option \<Rightarrow> bool \<Rightarrow> ssh_session" where
  "SshSession_init instance_id key_path ssm region_name profile_name port user command agent_mode =
     \<lparr> self_instance_id = instance_id,
       self_region_name = region_name,
       self_profile_name = (case profile_name of None \<Rightarrow> [] | Some p \<Rightarrow> p),
       self_ssm = ssm,
       self_port = port,
       self_user = user,
       self_command = command,
       self_key_path = key_path,
       self_agent_mode = agent_mode,
       self_ssh_cmd = None,
       self_session_parameters =
         JDict [(''Target'', JStr instance_id),
                (''DocumentName'', JStr ''AWS-StartSSHSession''),
                (''Parameters'', JDict [(''portNumber'', JList [JStr (str_int port)])])],
       self_response = None \<rparr>"

text \<open>
  \<open>SshSession._build_ssh_command\<close>, lines 67-112. Reading \<open>self._response\<close> before
  \<open>__enter__\<close> has set it, or \<open>self._ssm.meta\<close> when \<open>ssm\<close> is \<open>None\<close>, raises
  \<open>AttributeError\<close>.
\<close>

definition SshSession_build_ssh_command :: "'c world \<Rightarrow> ssh_session \<Rightarrow> exn + string list" where
  "SshSession_build_ssh_command w s =
     (let cmd = [''ssh'', ''-l'', self_user s, ''-p'', str_int (self_port s), ''-F'', ''/dev/null''];
          cmd = (if DEBUG w then cmd @ [''-vv''] else cmd @ [''-q''])
      in case self_response s of
           None \<Rightarrow> Inl (AttributeError ''_response'')
         | Some response \<Rightarrow>
            (case self_ssm s of
               None \<Rightarrow> Inl (AttributeError ''meta'')
             | Some ssm \<Rightarrow>
                (let proxy_command_args =
                       [PLUGIN_INSTALL_PATH w,
                        json_dumps w response,
                        self_region_name s,
                        ''StartSession'',
                        self_profile_name s,
                        json_dumps w (self_session_parameters s),
                        endpoint_url ssm];
                     proxy_command = join '' '' (map shlex_quote proxy_command_args);
                     ssh_options =
                       [''IdentitiesOnly='' @ (if self_agent_mode s then ''no'' else ''yes''),
                        ''IdentityFile='' @ self_key_path s,
                        ''UserKnownHostsFile=/dev/null'',
                        ''StrictHostKeyChecking=no'',
                        ''ProxyCommand='' @ proxy_command];
                     cmd = fold (\<lambda>ssh_option cmd. cmd @ [''-o''] @ [ssh_option]) ssh_options cmd;
                     cmd = cmd @ [self_instance_id s]
                 in Inr (case self_command s of
                           None \<Rightarrow> cmd
                         | Some command \<Rightarrow>
                             if command = [] then cmd else (cmd @ [''--'']) @ command))))"

text \<open>
  \<open>SshSession.open\<close>, lines 114-117: the built list is stored on the session, then
  \<open>execute(cmd[0], cmd[1:])\<close> runs and its result is the result of \<open>open\<close>.
\<close>

definition SshSession_open ::
  "'c world \<Rightarrow> ssh_session \<Rightarrow> event list \<Rightarrow> (exn + pyval) \<times> ssh_session \<times> event list" where
  "SshSession_open w s tr =
     (case SshSession_build_ssh_command w s of
        Inl e \<Rightarrow> (Inl e, s, tr)
      | Inr cmd \<Rightarrow>
         (case cmd of
            [] \<Rightarrow> (Inl (IndexError ''list index out of range''), s\<lparr>self_ssh_cmd := Some cmd\<rparr>, tr)
          | c # args \<Rightarrow> (execute w c args, s\<lparr>self_ssh_cmd := Some cmd\<rparr>, tr @ [Executed c args])))"

text \<open>
  Modelled from the spec: \<open>BaseSession.__enter__\<close> (\<open>aws_gate/session_common.py\<close> is
  not part of the source under study). Section 6 of the spec: the session-broker start
  call takes the session descriptor and returns an opaque session-start response, which
  the command builder later reads from the session.
\<close>

definition BaseSession_enter :: "'c world \<Rightarrow> ssh_session \<Rightarrow> exn + ssh_session" where
  "BaseSession_enter w s =
     (case self_ssm s of
        None \<Rightarrow> Inl (AttributeError ''start_session'')
      | Some ssm \<Rightarrow>
         (case start_session w ssm (self_session_parameters s) of
            Inl e \<Rightarrow> Inl e
          | Inr response \<Rightarrow> Inr (s\<lparr>self_response := Some response\<rparr>)))"

section \<open>The function \<open>ssh\<close>\<close>

text \<open>
  Python's \<open>with c as v: body\<close>. When the constructor or \<open>__enter__\<close> raises, the body
  does not run and \<open>__exit__\<close> is not called. Otherwise the body runs and \<open>__exit__\<close>
  is called once, with the exception the body raised if it raised one; that exception
  propagates unless \<open>__exit__\<close> returns a true value or raises itself.
  \<open>after_exit w c r\<close> is the outcome of the statement when the body ended with \<open>r\<close>.
\<close>

definition after_exit :: "'c world \<Rightarrow> cm \<Rightarrow> exn + unit \<Rightarrow> exn + unit" where
  "after_exit w c r =
     (case r of
        Inr u \<Rightarrow>
          (case cm_exit w c None of
             ExitRaises e' \<Rightarrow> Inl e'
           | ExitReturns b \<Rightarrow> Inr ())
      | Inl e \<Rightarrow>
          (case cm_exit w c (Some e) of
             ExitRaises e' \<Rightarrow> Inl e'
           | ExitReturns b \<Rightarrow> if b then Inr () else Inl e))"

definition with_stmt ::
  "'c world \<Rightarrow> cm \<Rightarrow> exn + 'v \<Rightarrow> ('v \<Rightarrow> event list \<Rightarrow> (exn + unit) \<times> event list)
     \<Rightarrow> event list \<Rightarrow> (exn + unit) \<times> event list" where
  "with_stmt w c entered body tr =
     (case entered of
        Inl e \<Rightarrow> (Inl e, tr @ [EnterFailed c e])
      | Inr v \<Rightarrow>
         (case body v (tr @ [Entered c]) of
            (r, tr') \<Rightarrow> (after_exit w c r, tr' @ [Exited c])))"

text \<open>
  Constructing and entering an \<open>SshKey\<close> or an \<open>SshKeyUploader\<close>: it raises or it
  succeeds. The object bound by \<open>as ssh_key\<close> is taken to be the key itself.
\<close>

definition enter_outcome :: "'c world \<Rightarrow> cm \<Rightarrow> exn + unit" where
  "enter_outcome w c = (case cm_enter w c of Some e \<Rightarrow> Inl e | None \<Rightarrow> Inr ())"

text \<open>
  The three nested \<open>with\<close> statements of \<open>ssh\<close>, lines 164-179: the key, the
  uploader, the session, and in the innermost body the call \<open>ssh_session.open()\<close>,
  whose value is dropped.
\<close>

definition ssh_scopes ::
  "'c world \<Rightarrow> ssh_key \<Rightarrow> ssh_key_uploader \<Rightarrow> ssh_session \<Rightarrow> event list
     \<Rightarrow> (exn + unit) \<times> event list" where
  "ssh_scopes w ssh_key uploader session tr =
     with_stmt w (KeyCM ssh_key) (enter_outcome w (KeyCM ssh_key)) (\<lambda>_.
       with_stmt w (UploaderCM uploader) (enter_outcome w (UploaderCM uploader)) (\<lambda>_.
         with_stmt w (SessionCM session) (BaseSession_enter w session) (\<lambda>ssh_session tr.
           (case SshSession_open w ssh_session tr of
              (Inl e, _, tr) \<Rightarrow> (Inl e, tr)
            | (Inr _, _, tr) \<Rightarrow> (Inr (), tr))))) tr"

text \<open>
  The body of \<open>ssh\<close>, lines 124-179: what runs once the decorators of lines 120-123
  have let the call through (\<open>ssh_decorated\<close> below puts them in front). The function
  has no \<open>return\<close> statement: when it does not raise, it returns \<open>None\<close>.
\<close>

definition ssh ::
  "'c world \<Rightarrow> 'c \<Rightarrow> string \<Rightarrow> string \<Rightarrow> int \<Rightarrow> string \<Rightarrow> int \<Rightarrow> string option \<Rightarrow> string
     \<Rightarrow> string list option \<Rightarrow> bool \<Rightarrow> event list \<Rightarrow> (exn + pyval) \<times> event list" where
  "ssh w config instance_name user port key_type key_size profile_name region_name command
       agent_mode tr =
     (case fetch_instance_details_from_config w config instance_name profile_name region_name of
        Inl e \<Rightarrow> (Inl e, tr)
      | Inr (instance, profile, region) \<Rightarrow>
     (case get_aws_client w ''ssm'' region profile of
        Inl e \<Rightarrow> (Inl e, tr)
      | Inr ssm \<Rightarrow>
     (case get_aws_resource w ''ec2'' region profile of
        Inl e \<Rightarrow> (Inl e, tr)
      | Inr ec2 \<Rightarrow>
     (case get_aws_client w ''ec2-instance-connect'' region profile of
        Inl e \<Rightarrow> (Inl e, tr)
      | Inr ec2_ic \<Rightarrow>
     (case query_instance w instance ec2 of
        Inl e \<Rightarrow> (Inl e, tr)
      | Inr None \<Rightarrow>
          (Inl (ValueError (''No instance could be found for name: '' @ instance)), tr)
      | Inr (Some instance_id) \<Rightarrow>
     (case get_instance_details w instance_id ec2 of
        Inl e \<Rightarrow> (Inl e, tr)
      | Inr details \<Rightarrow>
     (case map_of details ''availability_zone'' of
        None \<Rightarrow> (Inl (KeyError ''availability_zone''), tr)
      | Some az \<Rightarrow>
         (let tr = tr @ [LogInfo instance_id region profile];
              key_path = DEFAULT_GATE_DIR w @ ''/'' @ instance_id @ ''.'' @ region_name
                           @ ''.'' @ format_opt profile_name;
              ssh_key = SshKey key_type key_size key_path agent_mode;
              uploader = SshKeyUploader instance_id az user ssh_key ec2_ic;
              session = SshSession_init instance_id key_path (Some ssm) region profile port
                          user command agent_mode;
              (r, tr) = ssh_scopes w ssh_key uploader session tr
          in (case r of Inl e \<Rightarrow> (Inl e, tr) | Inr _ \<Rightarrow> (Inr PyNone, tr))))))))))"

text \<open>
  \<open>ssh\<close> as its callers see it, lines 120-179: the decorators run from the outermost
  to the innermost, \<open>plugin_required\<close>, \<open>plugin_version("1.1.23.0")\<close>,
  \<open>valid_aws_profile\<close>, \<open>valid_aws_region\<close>, and the body runs when none of them
  raises.
\<close>

definition ssh_decorated ::
  "'c world \<Rightarrow> 'c \<Rightarrow> string \<Rightarrow> string \<Rightarrow> int \<Rightarrow> string \<Rightarrow> int \<Rightarrow> string option \<Rightarrow> string
     \<Rightarrow> string list option \<Rightarrow> bool \<Rightarrow> event list \<Rightarrow> (exn + pyval) \<times> event list" where
  "ssh_decorated w config instance_name user port key_type key_size profile_name region_name
       command agent_mode tr =
     (case plugin_required w of
        Some e \<Rightarrow> (Inl e, tr)
      | None \<Rightarrow>
     (case plugin_version w ''1.1.23.0'' of
        Some e \<Rightarrow> (Inl e, tr)
      | None \<Rightarrow>
     (case valid_aws_profile w profile_name of
        Some e \<Rightarrow> (Inl e, tr)
      | None \<Rightarrow>
     (case valid_aws_region w region_name of
        Some e \<Rightarrow> (Inl e, tr)
      | None \<Rightarrow>
         ssh w config instance_name user port key_type key_size profile_name region_name
           command agent_mode tr))))"

section \<open>How a POSIX shell splits a command line into words\<close>

text \<open>
  The reference against which the quoting of the ProxyCommand string is measured: the
  quoting rules of the POSIX Shell Command Language (section 2.2) and the separation of
  words at unquoted blanks. A backslash outside quotes keeps the next character (a
  backslash-newline pair is removed); single quotes keep every character up to the next
  single quote; inside double quotes a backslash escapes only dollar, backquote, double
  quote, backslash and newline. The splitter is strict: where the shell would do more
  than read a literal word (an unquoted operator, an expansion by dollar or backquote, a
  pattern or comment character, an unterminated quote) the result is \<open>None\<close>.
\<close>

datatype lexmode = Plain | Escaped | InSingle | InDouble | DoubleEscaped

definition blank :: "char \<Rightarrow> bool" where
  "blank c = (c = CHR '' '' \<or> c = CHR 0x09 \<or> c = CHR 0x0A)"

definition shell_special :: "char \<Rightarrow> bool" where
  "shell_special c = (c \<in> set (''|&;<>()$*?[#~'' @ [CHR 0x60]))"

fun add_char :: "char \<Rightarrow> string option \<Rightarrow> string option" where
  "add_char c None = Some [c]"
| "add_char c (Some word) = Some (word @ [c])"

fun open_word :: "string option \<Rightarrow> string option" where
  "open_word None = Some []"
| "open_word (Some word) = Some word"

fun close_word :: "string option \<Rightarrow> string list \<Rightarrow> string list" where
  "close_word None ws = ws"
| "close_word (Some word) ws = word # ws"

fun posix_words :: "lexmode \<Rightarrow> string option \<Rightarrow> string \<Rightarrow> string list option" where
  "posix_words Plain cur [] = Some (close_word cur [])"
| "posix_words Escaped cur [] = None"
| "posix_words InSingle cur [] = None"
| "posix_words InDouble cur [] = None"
| "posix_words DoubleEscaped cur [] = None"
| "posix_words Plain cur (c # cs) =
     (if blank c then map_option (close_word cur) (posix_words Plain None cs)
      else if c = sq then posix_words InSingle (open_word cur) cs
      else if c = dq then posix_words InDouble (open_word cur) cs
      else if c = bslash then posix_words Escaped cur cs
      else if shell_special c then None
      else posix_words Plain (add_char c cur) cs)"
| "posix_words Escaped cur (c # cs) =
     (if c = CHR 0x0A then posix_words Plain cur cs
      else posix_words Plain (add_char c cur) cs)"
| "posix_words InSingle cur (c # cs) =
     (if c = sq then posix_words Plain cur cs
      else posix_words InSingle (add_char c cur) cs)"
| "posix_words InDouble cur (c # cs) =
     (if c = dq then posix_words Plain cur cs
      else if c = bslash then posix_words DoubleEscaped cur cs
      else if c = CHR ''$'' \<or> c = CHR 0x60 then None
      else posix_words InDouble (add_char c cur) cs)"
| "posix_words DoubleEscaped cur (c # cs) =
     (if c = CHR ''$'' \<or> c = CHR 0x60 \<or> c = dq \<or> c = bslash
        then posix_words InDouble (add_char c cur) cs
      else if c = CHR 0x0A then posix_words InDouble cur cs
      else posix_words InDouble (add_char c (add_char bslash cur)) cs)"

definition posix_split :: "string \<Rightarrow> string list option" where
  "posix_split s = posix_words Plain None s"


section \<open>Observations on a run\<close>

text \<open>The key path a run handed to \<open>SshKey\<close>, read off the events of the run.\<close>

fun event_key_path :: "event \<Rightarrow> string option" where
  "event_key_path (Entered (KeyCM (SshKey key_type key_size key_path agent_mode))) = Some key_path"
| "event_key_path (EnterFailed (KeyCM (SshKey key_type key_size key_path agent_mode)) e) =
     Some key_path"
| "event_key_path ev = None"

definition key_paths :: "event list \<Rightarrow> string list" where
  "key_paths tr = List.map_filter event_key_path tr"

text \<open>The sessions a run constructed and tried to enter.\<close>

fun event_session :: "event \<Rightarrow> ssh_session option" where
  "event_session (Entered (SessionCM s)) = Some s"
| "event_session (EnterFailed (SessionCM s) e) = Some s"
| "event_session ev = None"

definition sessions :: "event list \<Rightarrow> ssh_session list" where
  "sessions tr = List.map_filter event_session tr"

section \<open>An example world\<close>

text \<open>
  A serialiser in the format of \<open>json.dumps\<close> (separators \<open>", "\<close> and \<open>": "\<close>) for
  the example world; in strings it escapes the double quote and the backslash.
\<close>

fun example_dumps :: "json \<Rightarrow> string" where
  "example_dumps JNull = ''null''"
| "example_dumps (JBool b) = (if b then ''true'' else ''false'')"
| "example_dumps (JInt i) = str_int i"
| "example_dumps (JStr s) =
     [dq] @ replace_char dq [bslash, dq] (replace_char bslash [bslash, bslash] s) @ [dq]"
| "example_dumps (JList xs) = ''['' @ join '', '' (map example_dumps xs) @ '']''"
| "example_dumps (JDict kvs) =
     ''{'' @ join '', '' (map (\<lambda>kv. example_dumps (JStr (fst kv)) @ '': '' @ example_dumps (snd kv)) kvs)
       @ ''}''"

text \<open>
  Example worlds: every lookup succeeds and the instance name \<open>web\<close> resolves to
  \<open>i-0123456789abcdef0\<close>; no release raises or suppresses; the plugin is present in
  the right version, the profiles \<open>default\<close> and \<open>prod\<close> exist and the regions are
  four of the provider's; what entering a key or an uploader, the session broker and the
  SSH process do is left open. In \<open>example_world\<close> every acquisition succeeds and the
  SSH process ends with status 255.
\<close>

definition example_response :: json where
  "example_response =
     JDict [(''SessionId'', JStr ''op-0f3a''), (''TokenValue'', JStr ''AAEAAb+c=''),
            (''StreamUrl'', JStr ''wss://ssmmessages/op-0f3a?role=publish_subscribe'')]"

definition example_world_with ::
  "(cm \<Rightarrow> exn option) \<Rightarrow> (aws_client \<Rightarrow> json \<Rightarrow> exn + json)
     \<Rightarrow> (string \<Rightarrow> string list \<Rightarrow> exn + pyval) \<Rightarrow> unit world" where
  "example_world_with enter start exec =
     \<lparr> DEBUG = False,
       PLUGIN_INSTALL_PATH = ''/usr/local/bin/session-manager-plugin'',
       DEFAULT_GATE_DIR = ''/home/op/.aws-gate'',
       json_dumps = example_dumps,
       fetch_instance_details_from_config =
         (\<lambda>config instance_name profile_name region_name.
            Inr (instance_name, profile_name, region_name)),
       get_aws_client =
         (\<lambda>service region profile.
            Inr \<lparr> service_name = service,
                  endpoint_url = ''https://'' @ service @ ''.'' @ region @ ''.amazonaws.com'' \<rparr>),
       get_aws_resource =
         (\<lambda>service region profile.
            Inr \<lparr> service_name = service,
                  endpoint_url = ''https://'' @ service @ ''.'' @ region @ ''.amazonaws.com'' \<rparr>),
       query_instance =
         (\<lambda>name ec2. Inr (if name = ''web'' then Some ''i-0123456789abcdef0'' else None)),
       get_instance_details =
         (\<lambda>instance_id ec2.
            Inr [(''instance_id'', instance_id), (''availability_zone'', ''us-east-1a'')]),
       cm_enter = enter,
       start_session = start,
       cm_exit = (\<lambda>c exc. ExitReturns False),
       execute = exec,
       plugin_required = None,
       plugin_version = (\<lambda>version. None),
       valid_aws_profile =
         (\<lambda>profile_name.
            if profile_name = Some ''default'' \<or> profile_name = Some ''prod'' then None
            else Some (ValueError ''Invalid profile provided'')),
       valid_aws_region =
         (\<lambda>region_name.
            if region_name \<in> set [''us-east-1'', ''us-west-2'', ''eu-west-1'', ''eu-central-1'']
            then None
            else Some (ValueError (''Invalid region provided: '' @ region_name))) \<rparr>"

definition example_world :: "unit world" where
  "example_world =
     example_world_with (\<lambda>c. None) (\<lambda>ssm parameters. Inr example_response)
       (\<lambda>cmd args. Inr (PyInt 255))"

text \<open>
  The example world with a configuration that knows the host \<open>web\<close>: it gives the
  instance name \<open>web\<close>, the profile \<open>prod\<close> and the region \<open>us-east-1\<close>, whatever
  profile and region the caller names; any other name goes through with the caller's.
\<close>

definition example_configured_world :: "unit world" where
  "example_configured_world =
     example_world
       \<lparr> fetch_instance_details_from_config :=
           (\<lambda>config instance_name profile_name region_name.
              if instance_name = ''web'' then Inr (''web'', Some ''prod'', ''us-east-1'')
              else Inr (instance_name, profile_name, region_name)) \<rparr>"

text \<open>
  The call \<open>ssh(config, "web", user="ec2-user", port=22, key_type="rsa", key_size=4096,
  profile_name="default", region_name="us-east-1")\<close> in an example world, and the objects
  it builds.
\<close>

definition example_run :: "unit world \<Rightarrow> (exn + pyval) \<times> event list" where
  "example_run w =
     ssh w () ''web'' ''ec2-user'' 22 ''rsa'' 4096 (Some ''default'') ''us-east-1'' None False []"

definition example_client :: "string \<Rightarrow> aws_client" where
  "example_client service =
     \<lparr> service_name = service,
       endpoint_url = ''https://'' @ service @ ''.'' @ ''us-east-1'' @ ''.amazonaws.com'' \<rparr>"

definition example_key_path :: string where
  "example_key_path = ''/home/op/.aws-gate/i-0123456789abcdef0.us-east-1.default''"

definition example_key :: ssh_key where
  "example_key = SshKey ''rsa'' 4096 example_key_path False"

definition example_uploader :: ssh_key_uploader where
  "example_uploader =
     SshKeyUploader ''i-0123456789abcdef0'' ''us-east-1a'' ''ec2-user'' example_key
       (example_client ''ec2-instance-connect'')"

definition example_session :: ssh_session where
  "example_session =
     SshSession_init ''i-0123456789abcdef0'' example_key_path (Some (example_client ''ssm''))
       ''us-east-1'' (Some ''default'') 22 ''ec2-user'' None False"

definition example_args :: "string list" where
  "example_args =
     [''-l'', ''ec2-user'', ''-p'', str_int 22, ''-F'', ''/dev/null'', ''-q'',
      ''-o'', ''IdentitiesOnly=yes'',
      ''-o'', ''IdentityFile='' @ example_key_path,
      ''-o'', ''UserKnownHostsFile=/dev/null'',
      ''-o'', ''StrictHostKeyChecking=no'',
      ''-o'', ''ProxyCommand='' @ join '' '' (map shlex_quote
                [''/usr/local/bin/session-manager-plugin'',
                 example_dumps example_response,
                 ''us-east-1'', ''StartSession'', ''default'',
                 example_dumps (self_session_parameters example_session),
                 endpoint_url (example_client ''ssm'')]),
      ''i-0123456789abcdef0'']"

section \<open>Shared lemmas\<close>

declare str_nat.simps [simp del]

subsection \<open>Quoting and splitting\<close>

lemma safe_char_plain:
  "safe_char c \<Longrightarrow>
     \<not> blank c \<and> c \<noteq> sq \<and> c \<noteq> dq \<and> c \<noteq> bslash \<and> \<not> shell_special c"
  by (auto simp: safe_char_def blank_def sq_def dq_def bslash_def shell_special_def)

lemma posix_words_safe:
  "list_all safe_char s \<Longrightarrow>
     posix_words Plain (Some word) (s @ rest) = posix_words Plain (Some (word @ s)) rest"
proof (induction s arbitrary: word)
  case Nil
  then show ?case by simp
next
  case (Cons c s)
  then have "safe_char c" and "list_all safe_char s" by simp_all
  with Cons.IH [of "word @ [c]"] safe_char_plain [of c] show ?case by simp
qed

lemma posix_words_single:
  "posix_words InSingle (Some word) (replace_char sq [sq, dq, sq, dq, sq] s @ sq # rest)
     = posix_words Plain (Some (word @ s)) rest"
proof (induction s arbitrary: word)
  case Nil
  then show ?case by (simp add: replace_char_def)
next
  case (Cons c s)
  have ne: "sq \<noteq> dq" "dq \<noteq> sq" "\<not> blank sq" "\<not> blank dq" "sq \<noteq> bslash"
      "sq \<noteq> CHR ''$''" "sq \<noteq> CHR 0x60"
    by (simp_all add: sq_def dq_def blank_def bslash_def)
  show ?case
  proof (cases "c = sq")
    case True
    then show ?thesis using Cons.IH [of "word @ [sq]"] ne
      by (simp add: replace_char_def)
  next
    case False
    then show ?thesis using Cons.IH [of "word @ [c]"]
      by (simp add: replace_char_def)
  qed
qed

lemma posix_words_quote:
  "posix_words Plain None (shlex_quote s @ rest) = posix_words Plain (Some s) rest"
proof (cases "s = []")
  case True
  then show ?thesis by (simp add: shlex_quote_def sq_def blank_def)
next
  case ne: False
  show ?thesis
  proof (cases "list_all safe_char s")
    case True
    from ne obtain c cs where s: "s = c # cs" by (cases s) auto
    with True have "safe_char c" "list_all safe_char cs" by simp_all
    then show ?thesis
      using ne True s safe_char_plain [of c] posix_words_safe [of cs "[c]" rest]
      by (simp add: shlex_quote_def)
  next
    case False
    then show ?thesis using ne posix_words_single [of "[]" s rest]
      by (simp add: shlex_quote_def sq_def blank_def)
  qed
qed

lemma posix_split_join_quote:
  "posix_split (join '' '' (map shlex_quote args)) = Some args"
  unfolding posix_split_def
proof (induction args rule: induct_list012)
  case 1
  then show ?case by simp
next
  case (2 x)
  then show ?case using posix_words_quote [of x "[]"] by simp
next
  case (3 x y zs)
  then show ?case
    using posix_words_quote [of x "CHR '' '' # join '' '' (map shlex_quote (y # zs))"]
    by (simp add: blank_def)
qed

lemma shlex_quote_empty: "shlex_quote [] = [sq, sq]"
  by (simp add: shlex_quote_def)

lemma shlex_quote_StartSession: "shlex_quote ''StartSession'' = ''StartSession''"
  by (simp add: shlex_quote_def safe_char_def)

subsection \<open>The built command\<close>

lemma build_ssh_command_value:
  assumes "self_response s = Some response" and "self_ssm s = Some ssm"
  shows "SshSession_build_ssh_command w s =
    Inr ([''ssh'', ''-l'', self_user s, ''-p'', str_int (self_port s), ''-F'', ''/dev/null'',
          if DEBUG w then ''-vv'' else ''-q'',
          ''-o'', ''IdentitiesOnly='' @ (if self_agent_mode s then ''no'' else ''yes''),
          ''-o'', ''IdentityFile='' @ self_key_path s,
          ''-o'', ''UserKnownHostsFile=/dev/null'',
          ''-o'', ''StrictHostKeyChecking=no'',
          ''-o'', ''ProxyCommand='' @ join '' '' (map shlex_quote
                    [PLUGIN_INSTALL_PATH w, json_dumps w response, self_region_name s,
                     ''StartSession'', self_profile_name s,
                     json_dumps w (self_session_parameters s), endpoint_url ssm]),
          self_instance_id s]
         @ (case self_command s of
              None \<Rightarrow> []
            | Some command \<Rightarrow> if command = [] then [] else ''--'' # command))"
  using assms
  by (simp add: SshSession_build_ssh_command_def Let_def split: option.split)

lemma build_ssh_command_proxy:
  assumes "self_response s = Some response" and "self_ssm s = Some ssm"
  shows "\<exists>cmd. SshSession_build_ssh_command w s = Inr cmd
           \<and> take 2 (drop 16 cmd) =
               [''-o'', ''ProxyCommand='' @ join '' '' (map shlex_quote
                    [PLUGIN_INSTALL_PATH w, json_dumps w response, self_region_name s,
                     ''StartSession'', self_profile_name s,
                     json_dumps w (self_session_parameters s), endpoint_url ssm])]"
  using build_ssh_command_value [OF assms, of w] by simp

subsection \<open>The \<open>with\<close> statement\<close>

lemma with_stmt_enter_failed:
  "with_stmt w c (Inl e) body tr = (Inl e, tr @ [EnterFailed c e])"
  by (simp add: with_stmt_def)

lemma with_stmt_entered:
  "with_stmt w c (Inr v) body tr =
     (after_exit w c (fst (body v (tr @ [Entered c]))),
      snd (body v (tr @ [Entered c])) @ [Exited c])"
  by (simp add: with_stmt_def case_prod_unfold)

lemma after_exit_raised:
  "cm_exit w c (Some e) = ExitReturns False \<Longrightarrow> after_exit w c (Inl e) = Inl e"
  by (simp add: after_exit_def)

lemma after_exit_returned:
  "cm_exit w c None = ExitReturns b \<Longrightarrow> after_exit w c (Inr u) = Inr ()"
  by (simp add: after_exit_def)

subsection \<open>The scopes of \<open>ssh\<close>\<close>

lemma session_enter_failed:
  "self_ssm session = Some ssm \<Longrightarrow>
   start_session w ssm (self_session_parameters session) = Inl e \<Longrightarrow>
   BaseSession_enter w session = Inl e"
  by (simp add: BaseSession_enter_def)

lemma session_entered:
  "self_ssm session = Some ssm \<Longrightarrow>
   start_session w ssm (self_session_parameters session) = Inr response \<Longrightarrow>
   BaseSession_enter w session = Inr (session\<lparr>self_response := Some response\<rparr>)"
  by (simp add: BaseSession_enter_def)

lemma open_value:
  "SshSession_build_ssh_command w s = Inr (c # args) \<Longrightarrow>
   SshSession_open w s tr =
     (execute w c args, s\<lparr>self_ssh_cmd := Some (c # args)\<rparr>, tr @ [Executed c args])"
  by (simp add: SshSession_open_def)

lemma scopes_key_fails:
  assumes "cm_enter w (KeyCM ssh_key) = Some e"
  shows "ssh_scopes w ssh_key uploader session tr =
           (Inl e, tr @ [EnterFailed (KeyCM ssh_key) e])"
  using assms by (simp add: ssh_scopes_def enter_outcome_def with_stmt_enter_failed)

lemma scopes_upload_fails:
  assumes "cm_enter w (KeyCM ssh_key) = None"
    and "cm_enter w (UploaderCM uploader) = Some e"
  shows "ssh_scopes w ssh_key uploader session tr =
           (after_exit w (KeyCM ssh_key) (Inl e),
            tr @ [Entered (KeyCM ssh_key), EnterFailed (UploaderCM uploader) e,
                  Exited (KeyCM ssh_key)])"
  using assms
  by (simp add: ssh_scopes_def enter_outcome_def with_stmt_enter_failed with_stmt_entered)

lemma scopes_session_fails:
  assumes "cm_enter w (KeyCM ssh_key) = None"
    and "cm_enter w (UploaderCM uploader) = None"
    and "BaseSession_enter w session = Inl e"
  shows "ssh_scopes w ssh_key uploader session tr =
           (after_exit w (KeyCM ssh_key) (after_exit w (UploaderCM uploader) (Inl e)),
            tr @ [Entered (KeyCM ssh_key), Entered (UploaderCM uploader),
                  EnterFailed (SessionCM session) e,
                  Exited (UploaderCM uploader), Exited (KeyCM ssh_key)])"
  using assms
  by (simp add: ssh_scopes_def enter_outcome_def with_stmt_enter_failed with_stmt_entered)

lemma scopes_run:
  assumes "cm_enter w (KeyCM ssh_key) = None"
    and "cm_enter w (UploaderCM uploader) = None"
    and "BaseSession_enter w session = Inr entered"
    and "SshSession_build_ssh_command w entered = Inr (c # args)"
  shows "ssh_scopes w ssh_key uploader session tr =
           (after_exit w (KeyCM ssh_key) (after_exit w (UploaderCM uploader)
              (after_exit w (SessionCM session) (map_sum id (\<lambda>v. ()) (execute w c args)))),
            tr @ [Entered (KeyCM ssh_key), Entered (UploaderCM uploader),
                  Entered (SessionCM session), Executed c args,
                  Exited (SessionCM session), Exited (UploaderCM uploader),
                  Exited (KeyCM ssh_key)])"
proof -
  have body: "(case SshSession_open w entered tr' of
                 (Inl e, _, tr) \<Rightarrow> (Inl e, tr)
               | (Inr _, _, tr) \<Rightarrow> (Inr (), tr)) =
              (map_sum id (\<lambda>v. ()) (execute w c args), tr' @ [Executed c args])" for tr'
    by (cases "execute w c args") (simp_all add: open_value [OF assms(4)])
  show ?thesis
    using assms(1-3)
    by (simp add: ssh_scopes_def enter_outcome_def with_stmt_entered body)
qed

lemma ssh_resolved:
  assumes "fetch_instance_details_from_config w config instance_name profile_name region_name
             = Inr (instance, profile, region)"
    and "get_aws_client w ''ssm'' region profile = Inr ssm"
    and "get_aws_resource w ''ec2'' region profile = Inr ec2"
    and "get_aws_client w ''ec2-instance-connect'' region profile = Inr ec2_ic"
    and "query_instance w instance ec2 = Inr (Some instance_id)"
    and "get_instance_details w instance_id ec2 = Inr details"
    and "map_of details ''availability_zone'' = Some az"
    and "key_path = DEFAULT_GATE_DIR w @ ''/'' @ instance_id @ ''.'' @ region_name @ ''.''
                      @ format_opt profile_name"
    and "ssh_key = SshKey key_type key_size key_path agent_mode"
    and "uploader = SshKeyUploader instance_id az user ssh_key ec2_ic"
    and "session = SshSession_init instance_id key_path (Some ssm) region profile port user
                     command agent_mode"
    and "scopes = ssh_scopes w ssh_key uploader session (tr @ [LogInfo instance_id region profile])"
  shows "ssh w config instance_name user port key_type key_size profile_name region_name command
           agent_mode tr =
         (map_sum id (\<lambda>u. PyNone) (fst scopes), snd scopes)"
proof -
  have "ssh w config instance_name user port key_type key_size profile_name region_name command
           agent_mode tr =
        (case scopes of
           (r, tr') \<Rightarrow> (case r of Inl e \<Rightarrow> (Inl e, tr') | Inr u \<Rightarrow> (Inr PyNone, tr')))"
    unfolding assms(12) assms(11) assms(10) assms(9) assms(8) ssh_def
    by (simp only: assms(1-7) sum.case option.case prod.case Let_def)
  then show ?thesis
    by (cases scopes; cases "fst scopes") simp_all
qed

subsection \<open>The example call\<close>

lemma example_lookups:
  "fetch_instance_details_from_config (example_world_with f g h) () ''web'' (Some ''default'')
     ''us-east-1'' = Inr (''web'', Some ''default'', ''us-east-1'')"
  "get_aws_client (example_world_with f g h) ''ssm'' ''us-east-1'' (Some ''default'')
     = Inr (example_client ''ssm'')"
  "get_aws_resource (example_world_with f g h) ''ec2'' ''us-east-1'' (Some ''default'')
     = Inr (example_client ''ec2'')"
  "get_aws_client (example_world_with f g h) ''ec2-instance-connect'' ''us-east-1''
     (Some ''default'') = Inr (example_client ''ec2-instance-connect'')"
  "query_instance (example_world_with f g h) ''web'' (example_client ''ec2'')
     = Inr (Some ''i-0123456789abcdef0'')"
  "get_instance_details (example_world_with f g h) ''i-0123456789abcdef0'' (example_client ''ec2'')
     = Inr [(''instance_id'', ''i-0123456789abcdef0''), (''availability_zone'', ''us-east-1a'')]"
  "map_of [(''instance_id'', ''i-0123456789abcdef0''), (''availability_zone'', ''us-east-1a'')]
     ''availability_zone'' = Some ''us-east-1a''"
  "example_key_path = DEFAULT_GATE_DIR (example_world_with f g h) @ ''/''
     @ ''i-0123456789abcdef0'' @ ''.'' @ ''us-east-1'' @ ''.'' @ format_opt (Some ''default'')"
  "example_key = SshKey ''rsa'' 4096 example_key_path False"
  "example_uploader = SshKeyUploader ''i-0123456789abcdef0'' ''us-east-1a'' ''ec2-user''
     example_key (example_client ''ec2-instance-connect'')"
  "example_session = SshSession_init ''i-0123456789abcdef0'' example_key_path
     (Some (example_client ''ssm'')) ''us-east-1'' (Some ''default'') 22 ''ec2-user'' None False"
  by (simp_all add: example_world_with_def example_client_def example_key_path_def
        example_key_def example_uploader_def example_session_def)

lemma example_build:
  "SshSession_build_ssh_command (example_world_with f g h)
     (example_session\<lparr>self_response := Some example_response\<rparr>) = Inr (''ssh'' # example_args)"
proof -
  have "self_response (example_session\<lparr>self_response := Some example_response\<rparr>)
          = Some example_response"
    and "self_ssm (example_session\<lparr>self_response := Some example_response\<rparr>)
          = Some (example_client ''ssm'')"
    by (simp_all add: example_session_def SshSession_init_def)
  from build_ssh_command_value [OF this, of "example_world_with f g h"]
  show ?thesis
    by (simp add: example_args_def example_session_def SshSession_init_def
          example_world_with_def)
qed

subsection \<open>A run in which every step succeeds\<close>

lemma ssh_run_value:
  assumes "fetch_instance_details_from_config w config instance_name profile_name region_name
             = Inr (instance, profile, region)"
    and "get_aws_client w ''ssm'' region profile = Inr ssm"
    and "get_aws_resource w ''ec2'' region profile = Inr ec2"
    and "get_aws_client w ''ec2-instance-connect'' region profile = Inr ec2_ic"
    and "query_instance w instance ec2 = Inr (Some instance_id)"
    and "get_instance_details w instance_id ec2 = Inr details"
    and "map_of details ''availability_zone'' = Some az"
    and "key_path = DEFAULT_GATE_DIR w @ ''/'' @ instance_id @ ''.'' @ region_name @ ''.''
                      @ format_opt profile_name"
    and "ssh_key = SshKey key_type key_size key_path agent_mode"
    and "uploader = SshKeyUploader instance_id az user ssh_key ec2_ic"
    and "session = SshSession_init instance_id key_path (Some ssm) region profile port user
                     command agent_mode"
    and "cm_enter w (KeyCM ssh_key) = None"
    and "cm_enter w (UploaderCM uploader) = None"
    and "start_session w ssm (self_session_parameters session) = Inr response"
    and "SshSession_build_ssh_command w (session\<lparr>self_response := Some response\<rparr>)
           = Inr (c # args)"
    and "execute w c args = Inr v"
    and "\<forall>m. \<exists>b. cm_exit w m None = ExitReturns b"
  shows "ssh w config instance_name user port key_type key_size profile_name region_name command
           agent_mode [] =
         (Inr PyNone,
          [LogInfo instance_id region profile, Entered (KeyCM ssh_key),
           Entered (UploaderCM uploader), Entered (SessionCM session), Executed c args,
           Exited (SessionCM session), Exited (UploaderCM uploader), Exited (KeyCM ssh_key)])"
proof -
  have ssm: "self_ssm session = Some ssm"
    by (simp add: assms(11) SshSession_init_def)
  from assms(17) obtain b1 b2 b3 where exits:
    "cm_exit w (SessionCM session) None = ExitReturns b1"
    "cm_exit w (UploaderCM uploader) None = ExitReturns b2"
    "cm_exit w (KeyCM ssh_key) None = ExitReturns b3"
    by metis
  show ?thesis
    by (simp add: ssh_resolved [OF assms(1-11) refl, where tr = "[]"]
          scopes_run [OF assms(12,13) session_entered [OF ssm assms(14)] assms(15)]
          assms(16) after_exit_returned [OF exits(1)] after_exit_returned [OF exits(2)]
          after_exit_returned [OF exits(3)])
qed

lemma example_run_value:
  "example_run (example_world_with (\<lambda>c. None) (\<lambda>ssm parameters. Inr example_response)
      (\<lambda>cmd args. Inr v)) =
     (Inr PyNone,
      [LogInfo ''i-0123456789abcdef0'' ''us-east-1'' (Some ''default''),
       Entered (KeyCM example_key), Entered (UploaderCM example_uploader),
       Entered (SessionCM example_session), Executed ''ssh'' example_args,
       Exited (SessionCM example_session), Exited (UploaderCM example_uploader),
       Exited (KeyCM example_key)])"
  unfolding example_run_def
  by (rule ssh_run_value [OF example_lookups _ _ _ example_build])
     (auto simp add: example_world_with_def)

subsection \<open>The key path of a run\<close>

lemma key_paths_append: "key_paths (tr @ evs) = key_paths tr @ key_paths evs"
  by (simp add: key_paths_def List.map_filter_def)

lemma scopes_key_paths:
  "key_paths (snd (ssh_scopes w (SshKey key_type key_size key_path agent_mode) uploader
      session tr)) = key_paths tr @ [key_path]"
  by (simp add: ssh_scopes_def with_stmt_def enter_outcome_def SshSession_open_def
        key_paths_append case_prod_unfold
        split: option.split sum.split list.split)
    (simp add: key_paths_def List.map_filter_def)

lemma sessions_append: "sessions (tr @ evs) = sessions tr @ sessions evs"
  by (simp add: sessions_def List.map_filter_def)

lemma scopes_sessions:
  "set (sessions (snd (ssh_scopes w ssh_key uploader session tr)))
     \<subseteq> insert session (set (sessions tr))"
  by (simp add: ssh_scopes_def with_stmt_def enter_outcome_def SshSession_open_def
        sessions_append case_prod_unfold
        split: option.split sum.split list.split)
    (auto simp add: sessions_def List.map_filter_def)

lemma key_paths_log: "key_paths [LogInfo instance_id region profile] = []"
  by (simp add: key_paths_def List.map_filter_def)

lemma sessions_log: "sessions [LogInfo instance_id region profile] = []"
  by (simp add: sessions_def List.map_filter_def)

lemma ssh_key_path_from_arguments:
  assumes "fetch_instance_details_from_config w config instance_name profile_name region_name
             = Inr (instance, profile, region)"
    and "get_aws_client w ''ssm'' region profile = Inr ssm"
    and "get_aws_resource w ''ec2'' region profile = Inr ec2"
    and "get_aws_client w ''ec2-instance-connect'' region profile = Inr ec2_ic"
    and "query_instance w instance ec2 = Inr (Some instance_id)"
    and "get_instance_details w instance_id ec2 = Inr details"
    and "map_of details ''availability_zone'' = Some az"
  shows "key_paths (snd (ssh w config instance_name user port key_type key_size profile_name
           region_name command agent_mode [])) =
         [DEFAULT_GATE_DIR w @ ''/'' @ instance_id @ ''.'' @ region_name @ ''.''
            @ format_opt profile_name]"
  by (simp add: ssh_resolved [OF assms refl refl refl refl refl] scopes_key_paths
        key_paths_log)

lemma ssh_sessions_from_lookup:
  assumes "fetch_instance_details_from_config w config instance_name profile_name region_name
             = Inr (instance, profile, region)"
    and "get_aws_client w ''ssm'' region profile = Inr ssm"
    and "get_aws_resource w ''ec2'' region profile = Inr ec2"
    and "get_aws_client w ''ec2-instance-connect'' region profile = Inr ec2_ic"
    and "query_instance w instance ec2 = Inr (Some instance_id)"
    and "get_instance_details w instance_id ec2 = Inr details"
    and "map_of details ''availability_zone'' = Some az"
  shows "list_all (\<lambda>s. self_region_name s = region
                        \<and> self_profile_name s = (case profile of None \<Rightarrow> [] | Some p \<Rightarrow> p))
           (sessions (snd (ssh w config instance_name user port key_type key_size profile_name
              region_name command agent_mode [])))"
proof -
  let ?key_path = "DEFAULT_GATE_DIR w @ ''/'' @ instance_id @ ''.'' @ region_name @ ''.''
                     @ format_opt profile_name"
  let ?session = "SshSession_init instance_id ?key_path (Some ssm) region profile port user
                    command agent_mode"
  have "set (sessions (snd (ssh w config instance_name user port key_type key_size profile_name
              region_name command agent_mode []))) \<subseteq> {?session}"
    using scopes_sessions [of w "SshKey key_type key_size ?key_path agent_mode"
        "SshKeyUploader instance_id az user (SshKey key_type key_size ?key_path agent_mode)
           ec2_ic"
        ?session "[LogInfo instance_id region profile]"]
    by (simp add: ssh_resolved [OF assms refl refl refl refl refl] sessions_log)
  moreover have "self_region_name ?session = region
      \<and> self_profile_name ?session = (case profile of None \<Rightarrow> [] | Some p \<Rightarrow> p)"
    by (simp add: SshSession_init_def)
  ultimately show ?thesis
    unfolding list_all_iff by blast
qed

subsection \<open>The decorators\<close>

lemma ssh_decorated_accepted:
  assumes "plugin_required w = None" and "plugin_version w ''1.1.23.0'' = None"
    and "valid_aws_profile w profile_name = None" and "valid_aws_region w region_name = None"
  shows "ssh_decorated w config instance_name user port key_type key_size profile_name
           region_name command agent_mode tr =
         ssh w config instance_name user port key_type key_size profile_name region_name
           command agent_mode tr"
  by (simp add: ssh_decorated_def assms)

lemma ssh_decorated_region_refused:
  assumes "plugin_required w = None" and "plugin_version w ''1.1.23.0'' = None"
    and "valid_aws_profile w profile_name = None" and "valid_aws_region w region_name = Some e"
  shows "ssh_decorated w config instance_name user port key_type key_size profile_name
           region_name command agent_mode tr = (Inl e, tr)"
  by (simp add: ssh_decorated_def assms)

section \<open>The claims about the built command\<close>

text \<open>
  C3. Whatever the plugin path, the serialised session-start response, the region, the
  profile, the serialised session parameters and the endpoint URL are (spaces, quotes and
  shell metacharacters included), the ProxyCommand value built by
  \<open>_build_ssh_command\<close>, split by the POSIX shell's word rules, is exactly the original
  list of seven arguments, in order.
\<close>

theorem proxy_command_round_trip:
  assumes "self_response s = Some response" and "self_ssm s = Some ssm"
  shows "\<exists>cmd. SshSession_build_ssh_command w s = Inr cmd
           \<and> take 13 (cmd ! 17) = ''ProxyCommand=''
           \<and> posix_split (drop 13 (cmd ! 17)) =
               Some [PLUGIN_INSTALL_PATH w, json_dumps w response, self_region_name s,
                     ''StartSession'', self_profile_name s,
                     json_dumps w (self_session_parameters s), endpoint_url ssm]"
proof -
  let ?args = "[PLUGIN_INSTALL_PATH w, json_dumps w response, self_region_name s,
                ''StartSession'', self_profile_name s,
                json_dumps w (self_session_parameters s), endpoint_url ssm]"
  from build_ssh_command_value [OF assms, of w]
  obtain cmd where cmd: "SshSession_build_ssh_command w s = Inr cmd"
    and opt: "cmd ! 17 = ''ProxyCommand='' @ join '' '' (map shlex_quote ?args)"
    by simp
  have "posix_split (drop 13 (cmd ! 17)) = Some ?args"
    using posix_split_join_quote [of ?args] by (simp add: opt)
  moreover have "take 13 (cmd ! 17) = ''ProxyCommand=''"
    by (simp add: opt)
  ultimately show ?thesis using cmd by blast
qed

theorem proxy_command_round_trip_witness:
  "\<exists>cmd. SshSession_build_ssh_command
            (example_world\<lparr>PLUGIN_INSTALL_PATH := ''/opt/session manager/plugin''\<rparr>)
            ((SshSession_init ''i-0123 $(reboot)'' ''/tmp/k'' (Some \<lparr>service_name = ''ssm'',
                 endpoint_url = ''https://ssm.example/?a=1&b=2''\<rparr>) ''us-east-1; id''
                 (Some (''op'' @ [sq] @ ''s profile'')) 22 ''ec2-user'' None False)
               \<lparr>self_response := Some (JStr ''a b'')\<rparr>) = Inr cmd
         \<and> take 13 (cmd ! 17) = ''ProxyCommand=''
         \<and> posix_split (drop 13 (cmd ! 17)) =
             Some [''/opt/session manager/plugin'', example_dumps (JStr ''a b''),
                   ''us-east-1; id'', ''StartSession'', ''op'' @ [sq] @ ''s profile'',
                   example_dumps (JDict [(''Target'', JStr ''i-0123 $(reboot)''),
                     (''DocumentName'', JStr ''AWS-StartSSHSession''),
                     (''Parameters'', JDict [(''portNumber'', JList [JStr (str_int 22)])])]),
                   ''https://ssm.example/?a=1&b=2'']"
proof -
  let ?w = "example_world\<lparr>PLUGIN_INSTALL_PATH := ''/opt/session manager/plugin''\<rparr>"
  let ?ssm = "\<lparr>service_name = ''ssm'', endpoint_url = ''https://ssm.example/?a=1&b=2''\<rparr>"
  let ?s = "(SshSession_init ''i-0123 $(reboot)'' ''/tmp/k'' (Some ?ssm) ''us-east-1; id''
               (Some (''op'' @ [sq] @ ''s profile'')) 22 ''ec2-user'' None False)
             \<lparr>self_response := Some (JStr ''a b'')\<rparr>"
  have response: "self_response ?s = Some (JStr ''a b'')"
    and ssm: "self_ssm ?s = Some ?ssm"
    by (simp_all add: SshSession_init_def)
  have sel: "PLUGIN_INSTALL_PATH ?w = ''/opt/session manager/plugin''"
    "json_dumps ?w = example_dumps"
    "self_region_name ?s = ''us-east-1; id''"
    "self_profile_name ?s = ''op'' @ [sq] @ ''s profile''"
    "self_session_parameters ?s =
       JDict [(''Target'', JStr ''i-0123 $(reboot)''),
              (''DocumentName'', JStr ''AWS-StartSSHSession''),
              (''Parameters'', JDict [(''portNumber'', JList [JStr (str_int 22)])])]"
    "endpoint_url ?ssm = ''https://ssm.example/?a=1&b=2''"
    by (simp_all add: SshSession_init_def example_world_def example_world_with_def)
  from proxy_command_round_trip [OF response ssm, of ?w]
  show ?thesis unfolding sel .
qed

text \<open>
  C5. The ProxyCommand option of every built invocation is the space-join of seven
  elements, each shell-quoted on its own, in this order: the plugin path, the
  JSON-serialised session-start response, the region, the literal \<open>StartSession\<close>, the
  profile, the JSON-serialised session parameters and the endpoint URL.
\<close>

theorem proxy_command_option_value:
  assumes "self_response s = Some response" and "self_ssm s = Some ssm"
  shows "\<exists>cmd. SshSession_build_ssh_command w s = Inr cmd
           \<and> take 2 (drop 16 cmd) =
               [''-o'',
                ''ProxyCommand=''
                  @ shlex_quote (PLUGIN_INSTALL_PATH w) @ '' ''
                  @ shlex_quote (json_dumps w response) @ '' ''
                  @ shlex_quote (self_region_name s) @ '' ''
                  @ shlex_quote ''StartSession'' @ '' ''
                  @ shlex_quote (self_profile_name s) @ '' ''
                  @ shlex_quote (json_dumps w (self_session_parameters s)) @ '' ''
                  @ shlex_quote (endpoint_url ssm)]"
  using build_ssh_command_proxy [OF assms, of w] by simp

theorem proxy_command_option_value_witness:
  "\<exists>cmd. SshSession_build_ssh_command example_world
            ((SshSession_init ''i-0123456789abcdef0'' ''/home/op/.aws-gate/k''
                 (Some \<lparr>service_name = ''ssm'', endpoint_url = ''https://ssm.local''\<rparr>)
                 ''us-east-1'' (Some ''default'') 22 ''ec2-user'' None False)
               \<lparr>self_response := Some (JDict [(''SessionId'', JStr ''op-1'')])\<rparr>) = Inr cmd
         \<and> take 2 (drop 16 cmd) =
             [''-o'',
              ''ProxyCommand=''
                @ shlex_quote ''/usr/local/bin/session-manager-plugin'' @ '' ''
                @ shlex_quote (example_dumps (JDict [(''SessionId'', JStr ''op-1'')])) @ '' ''
                @ shlex_quote ''us-east-1'' @ '' ''
                @ shlex_quote ''StartSession'' @ '' ''
                @ shlex_quote ''default'' @ '' ''
                @ shlex_quote (example_dumps (JDict [(''Target'', JStr ''i-0123456789abcdef0''),
                     (''DocumentName'', JStr ''AWS-StartSSHSession''),
                     (''Parameters'', JDict [(''portNumber'', JList [JStr (str_int 22)])])]))
                @ '' ''
                @ shlex_quote ''https://ssm.local'']"
proof -
  let ?ssm = "\<lparr>service_name = ''ssm'', endpoint_url = ''https://ssm.local''\<rparr>"
  let ?s = "(SshSession_init ''i-0123456789abcdef0'' ''/home/op/.aws-gate/k'' (Some ?ssm)
               ''us-east-1'' (Some ''default'') 22 ''ec2-user'' None False)
             \<lparr>self_response := Some (JDict [(''SessionId'', JStr ''op-1'')])\<rparr>"
  have response: "self_response ?s = Some (JDict [(''SessionId'', JStr ''op-1'')])"
    and ssm: "self_ssm ?s = Some ?ssm"
    by (simp_all add: SshSession_init_def)
  have sel: "PLUGIN_INSTALL_PATH example_world = ''/usr/local/bin/session-manager-plugin''"
    "json_dumps example_world = example_dumps"
    "self_region_name ?s = ''us-east-1''"
    "self_profile_name ?s = ''default''"
    "self_session_parameters ?s =
       JDict [(''Target'', JStr ''i-0123456789abcdef0''),
              (''DocumentName'', JStr ''AWS-StartSSHSession''),
              (''Parameters'', JDict [(''portNumber'', JList [JStr (str_int 22)])])]"
    "endpoint_url ?ssm = ''https://ssm.local''"
    by (simp_all add: SshSession_init_def example_world_def example_world_with_def)
  from proxy_command_option_value [OF response ssm, of example_world]
  show ?thesis unfolding sel .
qed

text \<open>
  C6. The argument list built for a session is, in order: \<open>ssh -l user -p port\<close> with
  the local configuration switched off by \<open>-F /dev/null\<close>; one verbosity flag, \<open>-vv\<close>
  when \<open>DEBUG\<close> is set and \<open>-q\<close> otherwise; the five \<open>-o\<close> options IdentitiesOnly,
  IdentityFile, UserKnownHostsFile=/dev/null, StrictHostKeyChecking=no and ProxyCommand;
  the instance id as the target; and, when a command was given (a non-empty list),
  \<open>--\<close> and the tokens of the command as they are, one argument each.
\<close>

theorem build_ssh_command_argument_list:
  assumes "self_response s = Some response" and "self_ssm s = Some ssm"
  shows "SshSession_build_ssh_command w s =
    Inr ([''ssh'', ''-l'', self_user s, ''-p'', str_int (self_port s), ''-F'', ''/dev/null'']
         @ [if DEBUG w then ''-vv'' else ''-q'']
         @ [''-o'', ''IdentitiesOnly='' @ (if self_agent_mode s then ''no'' else ''yes''),
            ''-o'', ''IdentityFile='' @ self_key_path s,
            ''-o'', ''UserKnownHostsFile=/dev/null'',
            ''-o'', ''StrictHostKeyChecking=no'',
            ''-o'', ''ProxyCommand='' @ join '' '' (map shlex_quote
                      [PLUGIN_INSTALL_PATH w, json_dumps w response, self_region_name s,
                       ''StartSession'', self_profile_name s,
                       json_dumps w (self_session_parameters s), endpoint_url ssm])]
         @ [self_instance_id s]
         @ (case self_command s of
              None \<Rightarrow> []
            | Some command \<Rightarrow> if command = [] then [] else [''--''] @ command))"
  using build_ssh_command_value [OF assms, of w]
  by (simp split: option.split)

theorem build_ssh_command_argument_list_witness:
  "SshSession_build_ssh_command example_world
     ((SshSession_init ''i-0123456789abcdef0'' ''/home/op/.aws-gate/k''
          (Some \<lparr>service_name = ''ssm'', endpoint_url = ''https://ssm.local''\<rparr>)
          ''us-east-1'' (Some ''default'') 22 ''ec2-user'' (Some [''uname'', ''-a'']) False)
        \<lparr>self_response := Some (JDict [(''SessionId'', JStr ''op-1'')])\<rparr>) =
   Inr [''ssh'', ''-l'', ''ec2-user'', ''-p'', str_int 22, ''-F'', ''/dev/null'', ''-q'',
        ''-o'', ''IdentitiesOnly=yes'',
        ''-o'', ''IdentityFile=/home/op/.aws-gate/k'',
        ''-o'', ''UserKnownHostsFile=/dev/null'',
        ''-o'', ''StrictHostKeyChecking=no'',
        ''-o'', ''ProxyCommand='' @ join '' '' (map shlex_quote
                  [''/usr/local/bin/session-manager-plugin'',
                   example_dumps (JDict [(''SessionId'', JStr ''op-1'')]),
                   ''us-east-1'', ''StartSession'', ''default'',
                   example_dumps (JDict [(''Target'', JStr ''i-0123456789abcdef0''),
                     (''DocumentName'', JStr ''AWS-StartSSHSession''),
                     (''Parameters'', JDict [(''portNumber'', JList [JStr (str_int 22)])])]),
                   ''https://ssm.local'']),
        ''i-0123456789abcdef0'', ''--'', ''uname'', ''-a'']"
proof -
  let ?ssm = "\<lparr>service_name = ''ssm'', endpoint_url = ''https://ssm.local''\<rparr>"
  let ?s = "(SshSession_init ''i-0123456789abcdef0'' ''/home/op/.aws-gate/k'' (Some ?ssm)
               ''us-east-1'' (Some ''default'') 22 ''ec2-user'' (Some [''uname'', ''-a'']) False)
             \<lparr>self_response := Some (JDict [(''SessionId'', JStr ''op-1'')])\<rparr>"
  have response: "self_response ?s = Some (JDict [(''SessionId'', JStr ''op-1'')])"
    and ssm: "self_ssm ?s = Some ?ssm"
    by (simp_all add: SshSession_init_def)
  have sel: "PLUGIN_INSTALL_PATH example_world = ''/usr/local/bin/session-manager-plugin''"
    "json_dumps example_world = example_dumps"
    "DEBUG example_world = False"
    "self_user ?s = ''ec2-user''"
    "self_port ?s = 22"
    "self_agent_mode ?s = False"
    "self_key_path ?s = ''/home/op/.aws-gate/k''"
    "self_instance_id ?s = ''i-0123456789abcdef0''"
    "self_command ?s = Some [''uname'', ''-a'']"
    "self_region_name ?s = ''us-east-1''"
    "self_profile_name ?s = ''default''"
    "self_session_parameters ?s =
       JDict [(''Target'', JStr ''i-0123456789abcdef0''),
              (''DocumentName'', JStr ''AWS-StartSSHSession''),
              (''Parameters'', JDict [(''portNumber'', JList [JStr (str_int 22)])])]"
    "endpoint_url ?ssm = ''https://ssm.local''"
    by (simp_all add: SshSession_init_def example_world_def example_world_with_def)
  from build_ssh_command_argument_list [OF response ssm, of example_world]
  show ?thesis unfolding sel by simp
qed

text \<open>
  C7. Every built invocation carries the IdentitiesOnly option, as its first \<open>-o\<close>
  option; its value is \<open>no\<close> exactly when the session is in agent mode, and \<open>yes\<close>
  otherwise.
\<close>

theorem identities_only_option:
  assumes "self_response s = Some response" and "self_ssm s = Some ssm"
  shows "\<exists>cmd v. SshSession_build_ssh_command w s = Inr cmd
           \<and> take 2 (drop 8 cmd) = [''-o'', ''IdentitiesOnly='' @ v]
           \<and> (v = ''no'' \<or> v = ''yes'')
           \<and> (v = ''no'') = self_agent_mode s"
  using build_ssh_command_value [OF assms, of w]
  by (cases "self_agent_mode s") simp_all

theorem identities_only_option_witness:
  "\<exists>cmd v. SshSession_build_ssh_command example_world
            ((SshSession_init ''i-0123456789abcdef0'' ''/home/op/.aws-gate/k''
                 (Some \<lparr>service_name = ''ssm'', endpoint_url = ''https://ssm.local''\<rparr>)
                 ''us-east-1'' (Some ''default'') 22 ''ec2-user'' None True)
               \<lparr>self_response := Some JNull\<rparr>) = Inr cmd
         \<and> take 2 (drop 8 cmd) = [''-o'', ''IdentitiesOnly='' @ v]
         \<and> (v = ''no'' \<or> v = ''yes'')
         \<and> (v = ''no'') = True"
proof -
  let ?ssm = "\<lparr>service_name = ''ssm'', endpoint_url = ''https://ssm.local''\<rparr>"
  let ?s = "(SshSession_init ''i-0123456789abcdef0'' ''/home/op/.aws-gate/k'' (Some ?ssm)
               ''us-east-1'' (Some ''default'') 22 ''ec2-user'' None True)
             \<lparr>self_response := Some JNull\<rparr>"
  have response: "self_response ?s = Some JNull"
    and ssm: "self_ssm ?s = Some ?ssm"
    by (simp_all add: SshSession_init_def)
  have sel: "self_agent_mode ?s = True"
    by (simp add: SshSession_init_def)
  from identities_only_option [OF response ssm, of example_world]
  show ?thesis unfolding sel .
qed

text \<open>
  C8. A session constructed for instance id \<open>I\<close> and port \<open>P\<close> holds the descriptor
  \<open>{"Target": I, "DocumentName": "AWS-StartSSHSession", "Parameters": {"portNumber": [str(P)]}}\<close>,
  and this descriptor, serialised, is the sixth element of the proxy command. The
  constructor is a function of its arguments alone: it is given no world to call and
  leaves no event.
\<close>

theorem session_descriptor:
  "self_session_parameters
     (SshSession_init I key_path ssm_opt region_name profile_name P user command agent_mode) =
     JDict [(''Target'', JStr I),
            (''DocumentName'', JStr ''AWS-StartSSHSession''),
            (''Parameters'', JDict [(''portNumber'', JList [JStr (str_int P)])])]
   \<and> (\<exists>cmd. SshSession_build_ssh_command w
          ((SshSession_init I key_path (Some ssm) region_name profile_name P user command
              agent_mode) \<lparr>self_response := Some response\<rparr>) = Inr cmd
        \<and> map_option (\<lambda>args. args ! 5) (posix_split (drop 13 (cmd ! 17))) =
            Some (json_dumps w
              (JDict [(''Target'', JStr I),
                      (''DocumentName'', JStr ''AWS-StartSSHSession''),
                      (''Parameters'', JDict [(''portNumber'', JList [JStr (str_int P)])])])))"
proof -
  let ?s = "(SshSession_init I key_path (Some ssm) region_name profile_name P user command
              agent_mode) \<lparr>self_response := Some response\<rparr>"
  let ?args = "[PLUGIN_INSTALL_PATH w, json_dumps w response, self_region_name ?s,
                ''StartSession'', self_profile_name ?s,
                json_dumps w (self_session_parameters ?s), endpoint_url ssm]"
  have "self_response ?s = Some response" and "self_ssm ?s = Some ssm"
    by (simp_all add: SshSession_init_def)
  from build_ssh_command_value [OF this, of w]
  obtain cmd where cmd: "SshSession_build_ssh_command w ?s = Inr cmd"
    and opt: "cmd ! 17 = ''ProxyCommand='' @ join '' '' (map shlex_quote ?args)"
    by simp
  have "posix_split (drop 13 (cmd ! 17)) = Some ?args"
    using posix_split_join_quote [of ?args] by (simp add: opt)
  then have "map_option (\<lambda>args. args ! 5) (posix_split (drop 13 (cmd ! 17))) =
      Some (json_dumps w (self_session_parameters ?s))"
    by simp
  with cmd show ?thesis by (simp add: SshSession_init_def)
qed

text \<open>
  C10. A session constructed with \<open>profile_name = None\<close> stores the empty string as its
  profile, and the proxy command then carries the shell-quoted empty string (two single
  quotes) as its profile element, which the shell reads back as the empty word: the text
  \<open>None\<close> does not appear in its place.
\<close>

theorem none_profile_is_empty_string:
  "self_profile_name
     (SshSession_init instance_id key_path ssm_opt region_name None port user command agent_mode)
     = []
   \<and> (\<exists>cmd. SshSession_build_ssh_command w
          ((SshSession_init instance_id key_path (Some ssm) region_name None port user command
              agent_mode) \<lparr>self_response := Some response\<rparr>) = Inr cmd
        \<and> take 2 (drop 16 cmd) =
             [''-o'',
              ''ProxyCommand=''
                @ shlex_quote (PLUGIN_INSTALL_PATH w) @ '' ''
                @ shlex_quote (json_dumps w response) @ '' ''
                @ shlex_quote region_name @ '' ''
                @ ''StartSession'' @ '' ''
                @ [sq, sq] @ '' ''
                @ shlex_quote (json_dumps w
                    (JDict [(''Target'', JStr instance_id),
                            (''DocumentName'', JStr ''AWS-StartSSHSession''),
                            (''Parameters'',
                             JDict [(''portNumber'', JList [JStr (str_int port)])])])) @ '' ''
                @ shlex_quote (endpoint_url ssm)]
        \<and> map_option (\<lambda>args. args ! 4) (posix_split (drop 13 (cmd ! 17))) = Some [])"
proof -
  let ?s = "(SshSession_init instance_id key_path (Some ssm) region_name None port user command
              agent_mode) \<lparr>self_response := Some response\<rparr>"
  let ?args = "[PLUGIN_INSTALL_PATH w, json_dumps w response, self_region_name ?s,
                ''StartSession'', self_profile_name ?s,
                json_dumps w (self_session_parameters ?s), endpoint_url ssm]"
  have "self_response ?s = Some response" and "self_ssm ?s = Some ssm"
    by (simp_all add: SshSession_init_def)
  from build_ssh_command_value [OF this, of w]
  obtain cmd where cmd: "SshSession_build_ssh_command w ?s = Inr cmd"
    and opt: "cmd ! 17 = ''ProxyCommand='' @ join '' '' (map shlex_quote ?args)"
    and opt': "take 2 (drop 16 cmd) = [''-o'', ''ProxyCommand='' @ join '' '' (map shlex_quote ?args)]"
    by simp
  have split: "posix_split (drop 13 (cmd ! 17)) = Some ?args"
    using posix_split_join_quote [of ?args] by (simp add: opt)
  have profile: "self_profile_name ?s = []"
    by (simp add: SshSession_init_def)
  have "map_option (\<lambda>args. args ! 4) (posix_split (drop 13 (cmd ! 17))) = Some []"
    by (simp add: split profile)
  moreover have "take 2 (drop 16 cmd) =
             [''-o'',
              ''ProxyCommand=''
                @ shlex_quote (PLUGIN_INSTALL_PATH w) @ '' ''
                @ shlex_quote (json_dumps w response) @ '' ''
                @ shlex_quote region_name @ '' ''
                @ ''StartSession'' @ '' ''
                @ [sq, sq] @ '' ''
                @ shlex_quote (json_dumps w
                    (JDict [(''Target'', JStr instance_id),
                            (''DocumentName'', JStr ''AWS-StartSSHSession''),
                            (''Parameters'',
                             JDict [(''portNumber'', JList [JStr (str_int port)])])])) @ '' ''
                @ shlex_quote (endpoint_url ssm)]"
    unfolding opt'
    by (simp add: SshSession_init_def shlex_quote_empty shlex_quote_StartSession)
  ultimately show ?thesis using cmd by (simp add: SshSession_init_def)
qed

section \<open>The claims about \<open>ssh\<close>\<close>

text \<open>
  C9. When the lookup of the instance yields no instance id, \<open>ssh\<close> raises
  \<open>ValueError\<close> with a message that names the instance, and it has done nothing
  before: the run adds no event, so no key was generated, no uploader (the trust-broker
  call) and no session was entered, no process was started and nothing is left to
  release.
\<close>

theorem ssh_unknown_instance:
  assumes "fetch_instance_details_from_config w config instance_name profile_name region_name
             = Inr (instance, profile, region)"
    and "get_aws_client w ''ssm'' region profile = Inr ssm"
    and "get_aws_resource w ''ec2'' region profile = Inr ec2"
    and "get_aws_client w ''ec2-instance-connect'' region profile = Inr ec2_ic"
    and "query_instance w instance ec2 = Inr None"
  shows "ssh w config instance_name user port key_type key_size profile_name region_name command
           agent_mode tr =
         (Inl (ValueError (''No instance could be found for name: '' @ instance)), tr)"
  by (simp add: ssh_def assms)

theorem ssh_unknown_instance_witness:
  "ssh example_world () ''db'' ''ec2-user'' 22 ''rsa'' 4096 (Some ''default'') ''us-east-1'' None
     False [] = (Inl (ValueError ''No instance could be found for name: db''), [])"
proof -
  have "fetch_instance_details_from_config example_world () ''db'' (Some ''default'')
          ''us-east-1'' = Inr (''db'', Some ''default'', ''us-east-1'')"
    and "get_aws_client example_world ''ssm'' ''us-east-1'' (Some ''default'')
          = Inr (example_client ''ssm'')"
    and "get_aws_resource example_world ''ec2'' ''us-east-1'' (Some ''default'')
          = Inr (example_client ''ec2'')"
    and "get_aws_client example_world ''ec2-instance-connect'' ''us-east-1'' (Some ''default'')
          = Inr (example_client ''ec2-instance-connect'')"
    and "query_instance example_world ''db'' (example_client ''ec2'') = Inr None"
    by (simp_all add: example_world_def example_world_with_def example_client_def)
  from ssh_unknown_instance [OF this] show ?thesis by simp
qed

text \<open>
  C2. Once the instance is resolved, \<open>ssh\<close> acquires the key, then the trust grant (the
  uploader), then the session, and runs SSH. When one of these steps raises \<open>e\<close>, every
  manager entered before it is exited exactly once, in the reverse of the order of
  entry, and the list of events is complete when the call ends; the managers not yet
  entered are neither entered nor exited. The exits are made whatever \<open>__exit__\<close>
  does; when each exit that sees \<open>e\<close> returns false (it neither raises nor suppresses),
  the caller receives \<open>e\<close>.
\<close>

theorem ssh_unwinds_in_reverse_order:
  assumes "fetch_instance_details_from_config w config instance_name profile_name region_name
             = Inr (instance, profile, region)"
    and "get_aws_client w ''ssm'' region profile = Inr ssm"
    and "get_aws_resource w ''ec2'' region profile = Inr ec2"
    and "get_aws_client w ''ec2-instance-connect'' region profile = Inr ec2_ic"
    and "query_instance w instance ec2 = Inr (Some instance_id)"
    and "get_instance_details w instance_id ec2 = Inr details"
    and "map_of details ''availability_zone'' = Some az"
    and "key_path = DEFAULT_GATE_DIR w @ ''/'' @ instance_id @ ''.'' @ region_name @ ''.''
                      @ format_opt profile_name"
    and "ssh_key = SshKey key_type key_size key_path agent_mode"
    and "uploader = SshKeyUploader instance_id az user ssh_key ec2_ic"
    and "session = SshSession_init instance_id key_path (Some ssm) region profile port user
                     command agent_mode"
    and "run = ssh w config instance_name user port key_type key_size profile_name region_name
                 command agent_mode []"
  shows
    "(cm_enter w (KeyCM ssh_key) = Some e \<longrightarrow>
        run = (Inl e, [LogInfo instance_id region profile, EnterFailed (KeyCM ssh_key) e]))
     \<and> (cm_enter w (KeyCM ssh_key) = None \<and> cm_enter w (UploaderCM uploader) = Some e \<longrightarrow>
        snd run = [LogInfo instance_id region profile, Entered (KeyCM ssh_key),
                   EnterFailed (UploaderCM uploader) e, Exited (KeyCM ssh_key)]
        \<and> (cm_exit w (KeyCM ssh_key) (Some e) = ExitReturns False \<longrightarrow> fst run = Inl e))
     \<and> (cm_enter w (KeyCM ssh_key) = None \<and> cm_enter w (UploaderCM uploader) = None
          \<and> start_session w ssm (self_session_parameters session) = Inl e \<longrightarrow>
        snd run = [LogInfo instance_id region profile, Entered (KeyCM ssh_key),
                   Entered (UploaderCM uploader), EnterFailed (SessionCM session) e,
                   Exited (UploaderCM uploader), Exited (KeyCM ssh_key)]
        \<and> (cm_exit w (UploaderCM uploader) (Some e) = ExitReturns False
             \<and> cm_exit w (KeyCM ssh_key) (Some e) = ExitReturns False \<longrightarrow> fst run = Inl e))
     \<and> (cm_enter w (KeyCM ssh_key) = None \<and> cm_enter w (UploaderCM uploader) = None
          \<and> start_session w ssm (self_session_parameters session) = Inr response
          \<and> SshSession_build_ssh_command w (session\<lparr>self_response := Some response\<rparr>)
                = Inr (c # args)
          \<and> execute w c args = Inl e \<longrightarrow>
        snd run = [LogInfo instance_id region profile, Entered (KeyCM ssh_key),
                   Entered (UploaderCM uploader), Entered (SessionCM session),
                   Executed c args,
                   Exited (SessionCM session), Exited (UploaderCM uploader),
                   Exited (KeyCM ssh_key)]
        \<and> (cm_exit w (SessionCM session) (Some e) = ExitReturns False
             \<and> cm_exit w (UploaderCM uploader) (Some e) = ExitReturns False
             \<and> cm_exit w (KeyCM ssh_key) (Some e) = ExitReturns False \<longrightarrow> fst run = Inl e))"
proof -
  have ssm: "self_ssm session = Some ssm"
    by (simp add: assms(11) SshSession_init_def)
  note run = ssh_resolved [OF assms(1-11) refl, where tr = "[]", folded assms(12)]
  have key: "run = (Inl e, [LogInfo instance_id region profile, EnterFailed (KeyCM ssh_key) e])"
    if "cm_enter w (KeyCM ssh_key) = Some e"
    by (simp add: run scopes_key_fails [OF that])
  have upload: "snd run = [LogInfo instance_id region profile, Entered (KeyCM ssh_key),
                   EnterFailed (UploaderCM uploader) e, Exited (KeyCM ssh_key)]
        \<and> (cm_exit w (KeyCM ssh_key) (Some e) = ExitReturns False \<longrightarrow> fst run = Inl e)"
    if "cm_enter w (KeyCM ssh_key) = None" "cm_enter w (UploaderCM uploader) = Some e"
    by (simp add: run scopes_upload_fails [OF that] after_exit_raised)
  have start: "snd run = [LogInfo instance_id region profile, Entered (KeyCM ssh_key),
                   Entered (UploaderCM uploader), EnterFailed (SessionCM session) e,
                   Exited (UploaderCM uploader), Exited (KeyCM ssh_key)]
        \<and> (cm_exit w (UploaderCM uploader) (Some e) = ExitReturns False
             \<and> cm_exit w (KeyCM ssh_key) (Some e) = ExitReturns False \<longrightarrow> fst run = Inl e)"
    if "cm_enter w (KeyCM ssh_key) = None" "cm_enter w (UploaderCM uploader) = None"
      "start_session w ssm (self_session_parameters session) = Inl e"
    by (simp add: run
          scopes_session_fails [OF that(1,2) session_enter_failed [OF ssm that(3)]]
          after_exit_raised)
  have exec: "snd run = [LogInfo instance_id region profile, Entered (KeyCM ssh_key),
                   Entered (UploaderCM uploader), Entered (SessionCM session),
                   Executed c args,
                   Exited (SessionCM session), Exited (UploaderCM uploader),
                   Exited (KeyCM ssh_key)]
        \<and> (cm_exit w (SessionCM session) (Some e) = ExitReturns False
             \<and> cm_exit w (UploaderCM uploader) (Some e) = ExitReturns False
             \<and> cm_exit w (KeyCM ssh_key) (Some e) = ExitReturns False \<longrightarrow> fst run = Inl e)"
    if "cm_enter w (KeyCM ssh_key) = None" "cm_enter w (UploaderCM uploader) = None"
      "start_session w ssm (self_session_parameters session) = Inr response"
      "SshSession_build_ssh_command w (session\<lparr>self_response := Some response\<rparr>)
         = Inr (c # args)"
      "execute w c args = Inl e"
    by (simp add: run
          scopes_run [OF that(1,2) session_entered [OF ssm that(3)] that(4)]
          that(5) after_exit_raised)
  from key upload start exec show ?thesis by blast
qed

theorem ssh_unwinds_in_reverse_order_witness:
  "example_run (example_world_with
       (\<lambda>c. case c of KeyCM k \<Rightarrow> Some (OtherError ''KeyGenerationError'') | _ \<Rightarrow> None)
       (\<lambda>ssm parameters. Inr example_response) (\<lambda>cmd args. Inr (PyInt 0)))
     = (Inl (OtherError ''KeyGenerationError''),
        [LogInfo ''i-0123456789abcdef0'' ''us-east-1'' (Some ''default''),
         EnterFailed (KeyCM example_key) (OtherError ''KeyGenerationError'')])
   \<and> example_run (example_world_with
       (\<lambda>c. case c of UploaderCM u \<Rightarrow> Some (OtherError ''TrustInstallError'') | _ \<Rightarrow> None)
       (\<lambda>ssm parameters. Inr example_response) (\<lambda>cmd args. Inr (PyInt 0)))
     = (Inl (OtherError ''TrustInstallError''),
        [LogInfo ''i-0123456789abcdef0'' ''us-east-1'' (Some ''default''),
         Entered (KeyCM example_key),
         EnterFailed (UploaderCM example_uploader) (OtherError ''TrustInstallError''),
         Exited (KeyCM example_key)])
   \<and> example_run (example_world_with (\<lambda>c. None)
       (\<lambda>ssm parameters. Inl (OtherError ''TargetNotConnected'')) (\<lambda>cmd args. Inr (PyInt 0)))
     = (Inl (OtherError ''TargetNotConnected''),
        [LogInfo ''i-0123456789abcdef0'' ''us-east-1'' (Some ''default''),
         Entered (KeyCM example_key), Entered (UploaderCM example_uploader),
         EnterFailed (SessionCM example_session) (OtherError ''TargetNotConnected''),
         Exited (UploaderCM example_uploader), Exited (KeyCM example_key)])
   \<and> example_run (example_world_with (\<lambda>c. None)
       (\<lambda>ssm parameters. Inr example_response)
       (\<lambda>cmd args. Inl (ValueError ''ssh cannot be executed'')))
     = (Inl (ValueError ''ssh cannot be executed''),
        [LogInfo ''i-0123456789abcdef0'' ''us-east-1'' (Some ''default''),
         Entered (KeyCM example_key), Entered (UploaderCM example_uploader),
         Entered (SessionCM example_session), Executed ''ssh'' example_args,
         Exited (SessionCM example_session), Exited (UploaderCM example_uploader),
         Exited (KeyCM example_key)])"
proof -
  let ?start = "\<lambda>ssm parameters. Inr example_response :: exn + json"
  let ?exec = "\<lambda>cmd args. Inr (PyInt 0) :: exn + pyval"
  let ?w1 = "example_world_with
       (\<lambda>c. case c of KeyCM k \<Rightarrow> Some (OtherError ''KeyGenerationError'') | _ \<Rightarrow> None)
       ?start ?exec"
  let ?w2 = "example_world_with
       (\<lambda>c. case c of UploaderCM u \<Rightarrow> Some (OtherError ''TrustInstallError'') | _ \<Rightarrow> None)
       ?start ?exec"
  let ?w3 = "example_world_with (\<lambda>c. None)
       (\<lambda>ssm parameters. Inl (OtherError ''TargetNotConnected'')) ?exec"
  let ?w4 = "example_world_with (\<lambda>c. None) ?start
       (\<lambda>cmd args. Inl (ValueError ''ssh cannot be executed''))"
  have sel: "cm_enter (example_world_with f g h) = f"
    "start_session (example_world_with f g h) = g"
    "execute (example_world_with f g h) = h"
    "cm_exit (example_world_with f g h) = (\<lambda>c exc. ExitReturns False)" for f g h
    by (simp_all add: example_world_with_def)
  have "example_run ?w1
     = (Inl (OtherError ''KeyGenerationError''),
        [LogInfo ''i-0123456789abcdef0'' ''us-east-1'' (Some ''default''),
         EnterFailed (KeyCM example_key) (OtherError ''KeyGenerationError'')])"
    using ssh_unwinds_in_reverse_order [OF example_lookups example_run_def,
        where e = "OtherError ''KeyGenerationError''"]
    by (simp add: sel)
  moreover have "example_run ?w2
     = (Inl (OtherError ''TrustInstallError''),
        [LogInfo ''i-0123456789abcdef0'' ''us-east-1'' (Some ''default''),
         Entered (KeyCM example_key),
         EnterFailed (UploaderCM example_uploader) (OtherError ''TrustInstallError''),
         Exited (KeyCM example_key)])"
    using ssh_unwinds_in_reverse_order [OF example_lookups example_run_def,
        where e = "OtherError ''TrustInstallError''"]
    by (simp add: sel prod_eq_iff)
  moreover have "example_run ?w3
     = (Inl (OtherError ''TargetNotConnected''),
        [LogInfo ''i-0123456789abcdef0'' ''us-east-1'' (Some ''default''),
         Entered (KeyCM example_key), Entered (UploaderCM example_uploader),
         EnterFailed (SessionCM example_session) (OtherError ''TargetNotConnected''),
         Exited (UploaderCM example_uploader), Exited (KeyCM example_key)])"
    using ssh_unwinds_in_reverse_order [OF example_lookups example_run_def,
        where e = "OtherError ''TargetNotConnected''"]
    by (simp add: sel prod_eq_iff)
  moreover have "example_run ?w4
     = (Inl (ValueError ''ssh cannot be executed''),
        [LogInfo ''i-0123456789abcdef0'' ''us-east-1'' (Some ''default''),
         Entered (KeyCM example_key), Entered (UploaderCM example_uploader),
         Entered (SessionCM example_session), Executed ''ssh'' example_args,
         Exited (SessionCM example_session), Exited (UploaderCM example_uploader),
         Exited (KeyCM example_key)])"
    using ssh_unwinds_in_reverse_order [OF example_lookups example_run_def,
        where e = "ValueError ''ssh cannot be executed''" and response = example_response
          and c = "''ssh''" and args = example_args]
    by (simp add: sel prod_eq_iff example_build)
  ultimately show ?thesis
    by (simp only: simp_thms)
qed

text \<open>
  C1, as amended. When the instance is resolved, the key, the trust grant and the session
  are acquired, \<open>execute\<close> returns the status \<open>N\<close> of the SSH process (zero or not)
  and no release raises, then \<open>SshSession.open\<close> returns \<open>N\<close>, and \<open>ssh\<close> raises
  nothing, releases the three managers and returns \<open>None\<close>: it has no \<open>return\<close>
  statement, so the status is not its result.
\<close>

theorem ssh_discards_exit_status:
  assumes "fetch_instance_details_from_config w config instance_name profile_name region_name
             = Inr (instance, profile, region)"
    and "get_aws_client w ''ssm'' region profile = Inr ssm"
    and "get_aws_resource w ''ec2'' region profile = Inr ec2"
    and "get_aws_client w ''ec2-instance-connect'' region profile = Inr ec2_ic"
    and "query_instance w instance ec2 = Inr (Some instance_id)"
    and "get_instance_details w instance_id ec2 = Inr details"
    and "map_of details ''availability_zone'' = Some az"
    and "key_path = DEFAULT_GATE_DIR w @ ''/'' @ instance_id @ ''.'' @ region_name @ ''.''
                      @ format_opt profile_name"
    and "ssh_key = SshKey key_type key_size key_path agent_mode"
    and "uploader = SshKeyUploader instance_id az user ssh_key ec2_ic"
    and "session = SshSession_init instance_id key_path (Some ssm) region profile port user
                     command agent_mode"
    and "cm_enter w (KeyCM ssh_key) = None"
    and "cm_enter w (UploaderCM uploader) = None"
    and "start_session w ssm (self_session_parameters session) = Inr response"
    and "SshSession_build_ssh_command w (session\<lparr>self_response := Some response\<rparr>)
           = Inr (c # args)"
    and "execute w c args = Inr (PyInt N)"
    and "\<forall>m. \<exists>b. cm_exit w m None = ExitReturns b"
  shows "fst (SshSession_open w (session\<lparr>self_response := Some response\<rparr>) tr)
           = Inr (PyInt N)
     \<and> ssh w config instance_name user port key_type key_size profile_name region_name command
           agent_mode [] =
         (Inr PyNone,
          [LogInfo instance_id region profile, Entered (KeyCM ssh_key),
           Entered (UploaderCM uploader), Entered (SessionCM session), Executed c args,
           Exited (SessionCM session), Exited (UploaderCM uploader), Exited (KeyCM ssh_key)])"
  using ssh_run_value [OF assms] open_value [OF assms(15), of tr] assms(16)
  by simp

theorem ssh_discards_exit_status_witness:
  "fst (SshSession_open example_world
          (example_session\<lparr>self_response := Some example_response\<rparr>) []) = Inr (PyInt 255)
   \<and> example_run example_world =
       (Inr PyNone,
        [LogInfo ''i-0123456789abcdef0'' ''us-east-1'' (Some ''default''),
         Entered (KeyCM example_key), Entered (UploaderCM example_uploader),
         Entered (SessionCM example_session), Executed ''ssh'' example_args,
         Exited (SessionCM example_session), Exited (UploaderCM example_uploader),
         Exited (KeyCM example_key)])"
proof -
  let ?w = "example_world_with (\<lambda>c. None) (\<lambda>ssm parameters. Inr example_response)
              (\<lambda>cmd args. Inr (PyInt 255))"
  have enter: "cm_enter ?w (KeyCM example_key) = None"
    "cm_enter ?w (UploaderCM example_uploader) = None"
    and start: "start_session ?w (example_client ''ssm'')
           (self_session_parameters example_session) = Inr example_response"
    and exec: "execute ?w ''ssh'' example_args = Inr (PyInt 255)"
    and exits: "\<forall>m. \<exists>b. cm_exit ?w m None = ExitReturns b"
    by (auto simp add: example_world_with_def)
  show ?thesis
    unfolding example_run_def example_world_def
    by (rule ssh_discards_exit_status
          [OF example_lookups enter start example_build exec exits])
qed

text \<open>
  The claim as stated fails: in the example world the SSH process ends with status 255
  and \<open>ssh\<close> returns \<open>None\<close>, not 255.
\<close>

theorem ssh_exit_status_counterexample:
  "(\<forall>cmd args. execute example_world cmd args = Inr (PyInt 255))
   \<and> Executed ''ssh'' example_args \<in> set (snd (example_run example_world))
   \<and> fst (example_run example_world) = Inr PyNone
   \<and> fst (example_run example_world) \<noteq> Inr (PyInt 255)"
  by (simp add: example_run_value [of "PyInt 255", folded example_world_def])
     (simp add: example_world_def example_world_with_def)

text \<open>
  C4. The code departs from the claim. The key path is built from \<open>region_name\<close> and
  \<open>profile_name\<close>, the arguments of the call (lines 158-163), while the clients, the
  log line and the session take \<open>region\<close> and \<open>profile\<close>, which the lookup in the
  configuration returns (lines 136-144, 152-157, 170-171). The call
  \<open>ssh(config, "web", profile_name="default", region_name="eu-west-1")\<close> passes the
  decorators and ends without an error; the configuration gives \<open>web\<close> the region
  \<open>us-east-1\<close> and the profile \<open>prod\<close>; the session is made for that region and
  profile, and the key path names \<open>eu-west-1\<close> and \<open>default\<close>, not the region and
  the profile of the session.
\<close>

theorem key_path_ignores_configured_region:
  "fst (ssh_decorated example_configured_world () ''web'' ''ec2-user'' 22 ''rsa'' 4096
          (Some ''default'') ''eu-west-1'' None False []) = Inr PyNone
   \<and> map (\<lambda>s. (self_region_name s, self_profile_name s))
         (sessions (snd (ssh_decorated example_configured_world () ''web'' ''ec2-user'' 22
            ''rsa'' 4096 (Some ''default'') ''eu-west-1'' None False [])))
       = [(''us-east-1'', ''prod'')]
   \<and> key_paths (snd (ssh_decorated example_configured_world () ''web'' ''ec2-user'' 22
         ''rsa'' 4096 (Some ''default'') ''eu-west-1'' None False []))
       = [''/home/op/.aws-gate/i-0123456789abcdef0.eu-west-1.default'']
   \<and> key_paths (snd (ssh_decorated example_configured_world () ''web'' ''ec2-user'' 22
         ''rsa'' 4096 (Some ''default'') ''eu-west-1'' None False []))
       \<noteq> [''/home/op/.aws-gate/i-0123456789abcdef0.us-east-1.prod'']"
  by code_simp

end
